theory Spec2Isabelle
  imports Complex_Main "HOL-Library.Log_Nat"
begin

section \<open>JavaScript values\<close>

text \<open>
  The widget is JavaScript, so a field of a host row is an arbitrary JavaScript value.
  A Number is a finite value, \<open>NaN\<close>, or one of the two infinities. A finite value
  is kept as the rational it denotes; \<open>-0\<close> is identified with \<open>0\<close> (both are
  falsy, so \<open>||\<close> replaces either by its right operand, and the mapper passes no
  zero on without a \<open>||\<close>).
\<close>

datatype number = Fin rat | NaN | PosInfinity | NegInfinity

datatype jsval =
    Undefined
  | Null
  | Boolean bool
  | Num number
  | Str string
  | Arr "jsval list"
  | Obj "(string \<times> jsval) list"

text \<open>\<open>ToBoolean\<close>: what \<open>||\<close>, \<open>&&\<close>, \<open>!\<close> and \<open>?:\<close> test.\<close>

definition truthy_number :: "number \<Rightarrow> bool" where
  "truthy_number n = (case n of Fin q \<Rightarrow> q \<noteq> 0 | NaN \<Rightarrow> False | _ \<Rightarrow> True)"

definition truthy :: "jsval \<Rightarrow> bool" where
  "truthy v =
     (case v of
        Undefined \<Rightarrow> False
      | Null \<Rightarrow> False
      | Boolean b \<Rightarrow> b
      | Num n \<Rightarrow> truthy_number n
      | Str s \<Rightarrow> s \<noteq> []
      | Arr _ \<Rightarrow> True
      | Obj _ \<Rightarrow> True)"

text \<open>\<open>a || b\<close>, on Numbers and on arbitrary values.\<close>

definition or_number :: "number \<Rightarrow> number \<Rightarrow> number" where
  "or_number a b = (if truthy_number a then a else b)"

definition or_value :: "jsval \<Rightarrow> jsval \<Rightarrow> jsval" where
  "or_value a b = (if truthy a then a else b)"

text \<open>
  \<open>Number(v)\<close>. The conversion of \<open>undefined\<close>, \<open>null\<close>, booleans and Numbers is
  fixed by the language. The conversion of a string (and of an array or object, through
  its string form) is the engine's \<open>StringToNumber\<close>, which rounds decimal literals to
  doubles; it is taken as the parameter \<open>S\<close>, so every theorem below holds for
  whatever the engine computes there.
\<close>

fun Number :: "(jsval \<Rightarrow> number) \<Rightarrow> jsval \<Rightarrow> number" where
  "Number S Undefined = NaN"
| "Number S Null = Fin 0"
| "Number S (Boolean b) = Fin (if b then 1 else 0)"
| "Number S (Num n) = n"
| "Number S v = S v"

text \<open>
  \<open>Math.round\<close>: the nearest integer, ties towards \<open>+\<infinity>\<close>; \<open>NaN\<close> and the
  infinities are returned as they are.
\<close>

definition round_half_up :: "rat \<Rightarrow> int" where
  "round_half_up q = \<lfloor>q + 1 / 2\<rfloor>"

fun Math_round :: "number \<Rightarrow> number" where
  "Math_round (Fin q) = Fin (of_int (round_half_up q))"
| "Math_round n = n"

text \<open>
  The rounding of an exact result to a double: 53 significant bits, to the nearest, ties
  to the even significand. \<open>binary_exponent q\<close> is the \<open>e\<close> with
  \<open>2 ^ e \<le> |q| < 2 ^ (e + 1)\<close>, so that \<open>2 ^ (e - 52)\<close> is the distance between
  the doubles around \<open>q\<close>. The exponent range of a double is not modelled: the widget
  adds 1 to a double, and such a sum is 0 or at least \<open>2 ^ -53\<close> in magnitude (never
  subnormal) and below the largest double's rounding bound (never an overflow).
\<close>

definition binary_exponent :: "rat \<Rightarrow> int" where
  "binary_exponent q =
     (if 1 \<le> \<bar>q\<bar> then bitlen \<lfloor>\<bar>q\<bar>\<rfloor> - 1 else - bitlen (\<lceil>1 / \<bar>q\<bar>\<rceil> - 1))"

definition round_half_even :: "rat \<Rightarrow> int" where
  "round_half_even t =
     (if t - of_int \<lfloor>t\<rfloor> < 1 / 2 then \<lfloor>t\<rfloor>
      else if 1 / 2 < t - of_int \<lfloor>t\<rfloor> then \<lfloor>t\<rfloor> + 1
      else if even \<lfloor>t\<rfloor> then \<lfloor>t\<rfloor>
      else \<lfloor>t\<rfloor> + 1)"

definition round_to_double :: "rat \<Rightarrow> rat" where
  "round_to_double q =
     (if q = 0 then 0
      else of_int (round_half_even (q / 2 powi (binary_exponent q - 52))) *
           2 powi (binary_exponent q - 52))"

text \<open>\<open>a + b\<close> on Numbers: the exact sum of two finite doubles, rounded to a double.\<close>

fun plus_number :: "number \<Rightarrow> number \<Rightarrow> number" where
  "plus_number (Fin a) (Fin b) = Fin (round_to_double (a + b))"
| "plus_number NaN _ = NaN"
| "plus_number _ NaN = NaN"
| "plus_number PosInfinity NegInfinity = NaN"
| "plus_number NegInfinity PosInfinity = NaN"
| "plus_number PosInfinity _ = PosInfinity"
| "plus_number NegInfinity _ = NegInfinity"
| "plus_number _ PosInfinity = PosInfinity"
| "plus_number _ NegInfinity = NegInfinity"

text \<open>
  A fragment of \<open>StringToNumber\<close> for the concrete examples: the conversions of a few
  strings, as every engine computes them. It stands for \<open>S\<close> only where the
  examples name one of these strings or no string at all.
\<close>

definition StringToNumber_sample :: "jsval \<Rightarrow> number" where
  "StringToNumber_sample v =
     (if v = Str [] then Fin 0
      else if v = Str ''3.6'' then Fin (18 / 5)
      else if v = Str ''Infinity'' then PosInfinity
      else NaN)"

section \<open>Source records and tile view-models\<close>

text \<open>
  A row as the host delivers it to the \<open>onRecords\<close> callback. A field the row lacks
  reads as \<open>Undefined\<close>. The field \<open>id\<close> is named \<open>rec_id\<close>, and the tile's
  \<open>item_id\<close>, since \<open>id\<close> is the identity function of HOL.
\<close>

record source_record =
  rec_id :: jsval
  X :: jsval
  Y :: jsval
  W :: jsval
  H :: jsval
  Label :: jsval
  Link :: jsval
  Color :: jsval
  Type :: jsval
  Pages :: jsval

text \<open>
  The object built by the \<open>records.map\<close> callback. Both widget versions build the
  fields of \<open>item\<close>; version 13.0 (\<open>src/App.jsx\<close>) adds \<open>linkUrl\<close>, version 2.3 adds
  \<open>link\<close>, \<open>bgColor\<close>, \<open>type\<close> and \<open>pages\<close>.
\<close>

record item =
  item_id :: jsval
  x :: number
  y :: number
  w :: number
  h :: number
  label :: jsval
  color :: jsval

record item_v13 = item +
  linkUrl :: jsval

record item_v2_3 = item +
  link :: jsval
  bgColor :: jsval
  type :: jsval
  pages :: jsval

text \<open>The callback of \<open>records.map\<close> in \<open>src/App.jsx\<close> (version 13.0).\<close>

definition mapRecord_v13 :: "(jsval \<Rightarrow> number) \<Rightarrow> source_record \<Rightarrow> item_v13" where
  "mapRecord_v13 S rec =
     \<lparr> item_id = rec_id rec,
       x = plus_number (or_number (Math_round (Number S (X rec))) (Fin 0)) (Fin 1),
       y = plus_number (or_number (Math_round (Number S (Y rec))) (Fin 0)) (Fin 1),
       w = or_number (Math_round (Number S (W rec))) (Fin 2),
       h = or_number (Math_round (Number S (H rec))) (Fin 1),
       label = or_value (Label rec) (Str ''Untitled''),
       color = or_value (Color rec) (Str ''#ffffff''),
       linkUrl = Link rec \<rparr>"

text \<open>The callback of \<open>records.map\<close> in the widget of version 2.3.\<close>

definition mapRecord_v2_3 :: "(jsval \<Rightarrow> number) \<Rightarrow> source_record \<Rightarrow> item_v2_3" where
  "mapRecord_v2_3 S rec =
     \<lparr> item_id = rec_id rec,
       x = plus_number (or_number (Math_round (Number S (X rec))) (Fin 0)) (Fin 1),
       y = plus_number (or_number (Math_round (Number S (Y rec))) (Fin 0)) (Fin 1),
       w = or_number (Math_round (Number S (W rec))) (Fin 2),
       h = or_number (Math_round (Number S (H rec))) (Fin 1),
       label = or_value (Label rec) (Str []),
       color = or_value (Color rec) (Str ''var(--color-cell-fg, #3d3d3d)''),
       link = or_value (Link rec) (Str []),
       bgColor = (if truthy (Color rec) then Str ''rgba(255,255,255,0.05)''
                  else Str ''var(--color-cell-bg, white)''),
       type = Type rec,
       pages = Pages rec \<rparr>"

text \<open>
  A row that holds an id and the four numeric fields and nothing else, for the concrete
  examples.
\<close>

definition numeric_row :: "rat \<Rightarrow> jsval \<Rightarrow> jsval \<Rightarrow> jsval \<Rightarrow> jsval \<Rightarrow> source_record" where
  "numeric_row n vx vy vw vh =
     \<lparr> rec_id = Num (Fin n), X = vx, Y = vy, W = vw, H = vh,
       Label = Undefined, Link = Undefined, Color = Undefined, Type = Undefined,
       Pages = Undefined \<rparr>"

section \<open>The records handler and the rendered view\<close>

text \<open>
  The state of \<open>Dashboard\<close>: the two \<open>useState\<close> cells. \<open>status\<close> is a string
  or \<open>null\<close> (\<open>None\<close>).
\<close>

record 'a dashboard =
  items :: "'a list"
  status :: "string option"

definition Dashboard_v13 :: "item_v13 dashboard" where
  "Dashboard_v13 = \<lparr> items = [], status = Some ''Initializing connection...'' \<rparr>"

definition Dashboard_v2_3 :: "item_v2_3 dashboard" where
  "Dashboard_v2_3 = \<lparr> items = [], status = Some ''Initializing...'' \<rparr>"

text \<open>
  The body of \<open>useEffect\<close>, up to the registration of the records handler. The host
  global \<open>window.grist\<close> is absent, or its \<open>ready\<close> call raises an error with a
  message, or it returns. Version 2.3 has no \<open>try\<close>: an error of \<open>ready\<close> leaves
  the effect, and the state is as it was.
\<close>

datatype host = Grist_absent | Ready_throws string | Ready_returns

definition useEffect_v13 :: "host \<Rightarrow> 'a dashboard \<Rightarrow> 'a dashboard" where
  "useEffect_v13 g st =
     (case g of
        Grist_absent \<Rightarrow> st\<lparr>status := Some ''Error: Grist API global not found.''\<rparr>
      | Ready_throws message \<Rightarrow> st\<lparr>status := Some (''Grist Init Error: '' @ message)\<rparr>
      | Ready_returns \<Rightarrow> st)"

definition useEffect_v2_3 :: "host \<Rightarrow> 'a dashboard \<Rightarrow> 'a dashboard" where
  "useEffect_v2_3 g st =
     (case g of
        Grist_absent \<Rightarrow> st\<lparr>status := Some ''Error: Grist API not found.''\<rparr>
      | Ready_throws message \<Rightarrow> st
      | Ready_returns \<Rightarrow> st)"

text \<open>
  The callback given to \<open>grist.onRecords\<close>, as a function of the state it writes.
  The batch is an array of rows, or absent (\<open>None\<close>: \<open>undefined\<close> or
  \<open>null\<close>).
\<close>

definition onRecords_v13 ::
  "(jsval \<Rightarrow> number) \<Rightarrow> source_record list option \<Rightarrow> item_v13 dashboard \<Rightarrow> item_v13 dashboard" where
  "onRecords_v13 S records st =
     (case records of
        None \<Rightarrow> st\<lparr>status := Some ''Connected: 0 records found.'', items := []\<rparr>
      | Some rs \<Rightarrow>
          if length rs = 0 then st\<lparr>status := Some ''Connected: 0 records found.'', items := []\<rparr>
          else st\<lparr>items := map (mapRecord_v13 S) rs, status := None\<rparr>)"

definition onRecords_v2_3 ::
  "(jsval \<Rightarrow> number) \<Rightarrow> source_record list option \<Rightarrow> item_v2_3 dashboard \<Rightarrow> item_v2_3 dashboard" where
  "onRecords_v2_3 S records st =
     (case records of
        None \<Rightarrow>
          st\<lparr>status := Some ''No configuration found. Please link to the SysDashboard_Config table.'',
             items := []\<rparr>
      | Some rs \<Rightarrow>
          if length rs = 0
          then st\<lparr>status := Some ''No configuration found. Please link to the SysDashboard_Config table.'',
                  items := []\<rparr>
          else st\<lparr>items := map (mapRecord_v2_3 S) rs, status := None\<rparr>)"

text \<open>
  \<open>Element\<close>, the dispatcher of version 2.3, chooses one of two components for a
  tile.
\<close>

datatype element = MenuElement item_v2_3 | DefaultElement item_v2_3

definition isArray :: "jsval \<Rightarrow> bool" where
  "isArray v = (case v of Arr _ \<Rightarrow> True | _ \<Rightarrow> False)"

text \<open>\<open>v.length\<close> of an array; the code reads it only behind \<open>Array.isArray(v)\<close>.\<close>

definition array_length :: "jsval \<Rightarrow> nat" where
  "array_length v = (case v of Arr vs \<Rightarrow> length vs | _ \<Rightarrow> 0)"

definition Element :: "item_v2_3 \<Rightarrow> element" where
  "Element item =
     (if type item = Str ''Menu'' \<and> isArray (pages item) \<and> 1 < array_length (pages item)
      then MenuElement item
      else DefaultElement item)"

text \<open>
  \<open>pageRecords\<close> of \<open>MenuElement\<close>: the second element of \<open>pages\<close>, read
  behind the same guard, and the empty array otherwise.
\<close>

definition pageRecords :: "item_v2_3 \<Rightarrow> jsval" where
  "pageRecords item =
     (if isArray (pages item) \<and> 1 < array_length (pages item)
      then (case pages item of Arr vs \<Rightarrow> vs ! 1 | _ \<Rightarrow> Undefined)
      else Arr [])"

text \<open>
  What \<open>Dashboard\<close> returns: the status text alone while \<open>status\<close> is truthy
  (a string that is not empty), otherwise one child per held item, in the order of
  \<open>items\<close>.
\<close>

datatype 'e view = StatusMessage string | Canvas "'e list"

definition render_v13 :: "item_v13 dashboard \<Rightarrow> item_v13 view" where
  "render_v13 st =
     (case status st of
        None \<Rightarrow> Canvas (items st)
      | Some t \<Rightarrow> if t \<noteq> [] then StatusMessage t else Canvas (items st))"

definition render_v2_3 :: "item_v2_3 dashboard \<Rightarrow> element view" where
  "render_v2_3 st =
     (case status st of
        None \<Rightarrow> Canvas (map Element (items st))
      | Some t \<Rightarrow> if t \<noteq> [] then StatusMessage t else Canvas (map Element (items st)))"

text \<open>
  The dispatch rule in the words of the specification: the type is \<open>"Menu"\<close> and
  \<open>pages\<close> is a pair \<open>[tableName, subRecords]\<close> whose second element has more than
  one entry.
\<close>

definition spec_menu_rule :: "item_v2_3 \<Rightarrow> bool" where
  "spec_menu_rule item =
     (type item = Str ''Menu'' \<and>
      (case pages item of Arr [tableName, Arr subRecords] \<Rightarrow> 1 < length subRecords | _ \<Rightarrow> False))"

text \<open>A menu tile with the given \<open>pages\<close>, and a sub-record, for the concrete examples.\<close>

definition menu_item :: "jsval \<Rightarrow> item_v2_3" where
  "menu_item p =
     \<lparr> item_id = Num (Fin 1), x = Fin 1, y = Fin 1, w = Fin 2, h = Fin 1,
       label = Str [], color = Str ''var(--color-cell-fg, #3d3d3d)'',
       link = Str [], bgColor = Str ''var(--color-cell-bg, white)'',
       type = Str ''Menu'', pages = p \<rparr>"

definition page_record :: "rat \<Rightarrow> string \<Rightarrow> jsval" where
  "page_record n name =
     Obj [(''id'', Num (Fin n)), (''fields'', Obj [(''page_name'', Str name)])]"

section \<open>The navigation handler\<close>

text \<open>
  The URL of the top-level window, in the parts the URL interface exposes:
  \<open>origin\<close> (scheme, host and port), \<open>pathname\<close>, \<open>search\<close> (empty, or the query
  with its \<open>?\<close>) and the fragment (absent, or the text after \<open>#\<close>). \<open>href\<close> is
  its serialisation, which \<open>new URL\<close> parses back to the same parts.
\<close>

record url =
  origin :: string
  pathname :: string
  search :: string
  fragment :: "string option"

definition href :: "url \<Rightarrow> string" where
  "href u =
     origin u @ pathname u @ search u @ (case fragment u of None \<Rightarrow> [] | Some f \<Rightarrow> CHR ''#'' # f)"

text \<open>
  The setter of \<open>hash\<close>: the empty string removes the fragment; otherwise one leading
  \<open>#\<close> is dropped and the rest becomes the fragment, percent-encoded by the URL parser
  (the parameter \<open>E\<close>). No other part of the URL is written.
\<close>

definition set_hash :: "(string \<Rightarrow> string) \<Rightarrow> url \<Rightarrow> string \<Rightarrow> url" where
  "set_hash E u v =
     (case v of
        [] \<Rightarrow> u\<lparr>fragment := None\<rparr>
      | c # cs \<Rightarrow> u\<lparr>fragment := Some (E (if c = CHR ''#'' then cs else v))\<rparr>)"

text \<open>
  What the handler meets in the browser: \<open>window.top.location\<close>, its own
  \<open>window.location.origin\<close>, and the origin of a string when the browser resolves it
  as a URL against the top-level document's (\<open>None\<close> when it does not parse).
\<close>

record window =
  top_location :: url
  location_origin :: string
  resolved_origin :: "string \<Rightarrow> string option"

text \<open>
  The same-origin policy. A frame may read \<open>window.top.location\<close> and reach
  \<open>window.top.history\<close> and \<open>window.top.dispatchEvent\<close> only when it has the
  top-level window's origin; from a frame of another origin the read raises
  \<open>SecurityError\<close>. Assigning \<open>window.top.location.href\<close> is open to every frame.
  \<open>history.pushState\<close> raises \<open>SecurityError\<close>, and pushes nothing, for a URL that
  is not of the document's origin; a string that starts with \<open>#\<close> resolves to the
  document's own URL with the fragment replaced, and is accepted.
\<close>

definition top_readable :: "window \<Rightarrow> bool" where
  "top_readable win = (origin (top_location win) = location_origin win)"

definition startsWith :: "string \<Rightarrow> string \<Rightarrow> bool" where
  "startsWith s p = (take (length p) s = p)"

definition substring :: "nat \<Rightarrow> string \<Rightarrow> string" where
  "substring n s = drop n s"

definition pushState_accepts :: "window \<Rightarrow> string \<Rightarrow> bool" where
  "pushState_accepts win u =
     (startsWith u ''#'' \<or> resolved_origin win u = Some (origin (top_location win)))"

text \<open>
  What a call of the handler comes to: it returns after the calls it made on the
  top-level window, in order (\<open>history.pushState(null, '', u)\<close>,
  \<open>dispatchEvent(new PopStateEvent('popstate'))\<close>, the assignment
  \<open>location.href = u\<close>), or an exception leaves it. Every exception of the handlers
  below is raised before the first call takes effect, so \<open>Threw\<close> carries no calls.
  Console output is not recorded.
\<close>

datatype top_call = PushState string | DispatchPopState | SetLocationHref string

datatype dom_exception = SecurityError

datatype outcome = Returned "top_call list" | Threw dom_exception

text \<open>
  \<open>handleNavigate\<close> of \<open>src/App.jsx\<close> (version 13.0). The target is a string or
  absent (\<open>None\<close>). The comparison of the origins reads \<open>window.top.location\<close>; where
  that read is allowed the two origins are equal, so the assignment of the last branch is
  never reached.
\<close>

definition handleNavigate_v13 :: "window \<Rightarrow> string option \<Rightarrow> outcome" where
  "handleNavigate_v13 win target =
     (case target of
        None \<Rightarrow> Returned []
      | Some u \<Rightarrow>
          if u = [] then Returned []
          else if \<not> top_readable win then Threw SecurityError
          else if origin (top_location win) = location_origin win
          then (if pushState_accepts win u then Returned [PushState u, DispatchPopState]
                else Threw SecurityError)
          else Returned [SetLocationHref u])"

text \<open>
  \<open>handleNavigate\<close> of version 2.3. The URL it pushes is the top-level document's own
  with another fragment, which \<open>pushState\<close> accepts.
\<close>

definition handleNavigate_v2_3 :: "(string \<Rightarrow> string) \<Rightarrow> window \<Rightarrow> string option \<Rightarrow> outcome" where
  "handleNavigate_v2_3 E win target =
     (case target of
        None \<Rightarrow> Returned []
      | Some u \<Rightarrow>
          if u = [] then Returned []
          else if startsWith u ''#''
          then (if \<not> top_readable win then Threw SecurityError
                else (let newUrl = set_hash E (top_location win) (substring 1 u)
                      in Returned [PushState (href newUrl), DispatchPopState]))
          else Returned [SetLocationHref u])"

text \<open>
  A widget served from the host's own origin, and one served from another origin, for
  the concrete examples, with the origins of the two URLs the examples navigate to; the
  fragment encoder that leaves its argument as it is (what the URL parser does to
  letters, digits and \<open>=\<close>).
\<close>

definition sample_origin :: "string \<Rightarrow> string option" where
  "sample_origin u =
     (if u = ''https://docs.example/o/docs/abc/Budget'' then Some ''https://docs.example''
      else if u = ''https://other.example/x'' then Some ''https://other.example''
      else None)"

definition embedded_same_origin :: window where
  "embedded_same_origin =
     \<lparr> top_location =
         \<lparr> origin = ''https://docs.example'', pathname = ''/o/docs/abc/Dashboard'',
           search = ''?embed=true'', fragment = Some ''p=Home'' \<rparr>,
       location_origin = ''https://docs.example'',
       resolved_origin = sample_origin \<rparr>"

definition embedded_other_origin :: window where
  "embedded_other_origin =
     \<lparr> top_location =
         \<lparr> origin = ''https://docs.example'', pathname = ''/o/docs/abc/Dashboard'',
           search = ''?embed=true'', fragment = Some ''p=Home'' \<rparr>,
       location_origin = ''https://widgets.example'',
       resolved_origin = sample_origin \<rparr>"

definition plain_fragment :: "string \<Rightarrow> string" where
  "plain_fragment f = f"

section \<open>The crash boundary\<close>

text \<open>
  What a render pass or a handler throws: an \<open>Error\<close> object with its \<open>name\<close> and
  \<open>message\<close>. Its description is what \<open>Error.prototype.toString\<close> returns.
\<close>

datatype js_error = Error string string

fun toString :: "js_error \<Rightarrow> string" where
  "toString (Error name message) =
     (if name = [] then message
      else if message = [] then name
      else name @ '': '' @ message)"

text \<open>
  The state of \<open>ErrorBoundary\<close>. \<open>error\<close> is \<open>null\<close> (\<open>None\<close>) until
  \<open>componentDidCatch\<close> stores the failure; \<open>errorInfo\<close> (named \<open>info\<close> in version
  2.3) holds the component stack React reports with it.
\<close>

record boundary =
  hasError :: bool
  error :: "js_error option"
  errorInfo :: "string option"

text \<open>The state the constructor sets.\<close>

definition ErrorBoundary :: boundary where
  "ErrorBoundary = \<lparr> hasError = False, error = None, errorInfo = None \<rparr>"

text \<open>
  \<open>getDerivedStateFromError\<close> returns \<open>{ hasError: true }\<close> and
  \<open>componentDidCatch\<close> calls \<open>setState\<close> with the failure and its stack; either
  object is merged into the state, which is written here as the state that results.
  The two are the same in both widget versions (the console output of version 13.0 is
  not recorded).
\<close>

definition getDerivedStateFromError :: "js_error \<Rightarrow> boundary \<Rightarrow> boundary" where
  "getDerivedStateFromError e st = st\<lparr>hasError := True\<rparr>"

definition componentDidCatch :: "js_error \<Rightarrow> string \<Rightarrow> boundary \<Rightarrow> boundary" where
  "componentDidCatch e componentStack st = st\<lparr>error := Some e, errorInfo := Some componentStack\<rparr>"

text \<open>
  \<open>render\<close>: the diagnostic view once \<open>hasError\<close> is set, and \<open>this.props.children\<close>
  otherwise. The diagnostic view of version 13.0 is a fixed heading, the description of
  the failure and its component stack; that of version 2.3 is the fixed text
  \<open>CRASH:\<close> and the description. A \<open>null\<close> renders as nothing (\<open>None\<close>).
\<close>

datatype boundary_view = Widget_crashed "string option" "string option" | Props_children

definition ErrorBoundary_render_v13 :: "boundary \<Rightarrow> boundary_view" where
  "ErrorBoundary_render_v13 st =
     (if hasError st
      then Widget_crashed
        (case error st of None \<Rightarrow> None | Some e \<Rightarrow> Some (toString e))
        (errorInfo st)
      else Props_children)"

definition ErrorBoundary_render_v2_3 :: "boundary \<Rightarrow> boundary_view" where
  "ErrorBoundary_render_v2_3 st =
     (if hasError st
      then Widget_crashed (case error st of None \<Rightarrow> None | Some e \<Rightarrow> Some (toString e)) None
      else Props_children)"

text \<open>
  Modelled from the spec: the routing of failures to the boundary, which is React's and
  not code of this repository. By sections 4.4 and 9 of the specification the boundary is
  a catch around the render pass of the wrapped subtree: a failure raised while the
  subtree renders is handed to the boundary, which substitutes its fallback view, and a
  failure raised by an interaction handler (a navigation click, the records callback) is
  not handed to it. A render pass of the subtree yields its view or fails with an error
  and the component stack; a handler event fails with an error.

  A render pass first asks the boundary's \<open>render\<close>. If that is the diagnostic view, it
  is shown and the subtree is not rendered. Otherwise the subtree is rendered; when it
  fails, the failure goes through \<open>getDerivedStateFromError\<close> and
  \<open>componentDidCatch\<close>, and the boundary's \<open>render\<close> is asked again: the diagnostic
  view it returns is shown and the failure counts as intercepted; were it to return the
  children again, the failure would leave the widget uncaught. A failing handler leaves
  the boundary as it is and is uncaught.
\<close>

datatype 'v pass = Renders 'v | Render_fails js_error string

datatype 'v event = Render_pass "'v pass" | Handler_fails js_error

datatype 'v shown = Nothing_shown | Subtree 'v | Diagnostic "string option" "string option"

record 'v surface =
  state :: boundary
  screen :: "'v shown"
  interceptions :: nat
  uncaught :: "js_error list"

definition mounted :: "'v surface" where
  "mounted = \<lparr> state = ErrorBoundary, screen = Nothing_shown, interceptions = 0, uncaught = [] \<rparr>"

definition react_step :: "(boundary \<Rightarrow> boundary_view) \<Rightarrow> 'v event \<Rightarrow> 'v surface \<Rightarrow> 'v surface" where
  "react_step render ev s =
     (case ev of
        Handler_fails e \<Rightarrow> s\<lparr>uncaught := uncaught s @ [e]\<rparr>
      | Render_pass p \<Rightarrow>
          (case render (state s) of
             Widget_crashed description stack \<Rightarrow> s\<lparr>screen := Diagnostic description stack\<rparr>
           | Props_children \<Rightarrow>
               (case p of
                  Renders v \<Rightarrow> s\<lparr>screen := Subtree v\<rparr>
                | Render_fails e componentStack \<Rightarrow>
                    (let st = componentDidCatch e componentStack
                                (getDerivedStateFromError e (state s))
                     in case render st of
                          Widget_crashed description stack \<Rightarrow>
                            s\<lparr>state := st, screen := Diagnostic description stack,
                               interceptions := interceptions s + 1\<rparr>
                        | Props_children \<Rightarrow>
                            s\<lparr>state := st, uncaught := uncaught s @ [e]\<rparr>))))"

fun react_run :: "(boundary \<Rightarrow> boundary_view) \<Rightarrow> 'v event list \<Rightarrow> 'v surface \<Rightarrow> 'v surface" where
  "react_run render [] s = s"
| "react_run render (ev # evs) s = react_run render evs (react_step render ev s)"

text \<open>
  The failures of the handlers in a run, in order; the first failure of a render pass;
  the view of the subtree's last render pass.
\<close>

fun handler_failures :: "'v event list \<Rightarrow> js_error list" where
  "handler_failures [] = []"
| "handler_failures (Handler_fails e # evs) = e # handler_failures evs"
| "handler_failures (Render_pass p # evs) = handler_failures evs"

fun first_render_failure :: "'v event list \<Rightarrow> (js_error \<times> string) option" where
  "first_render_failure [] = None"
| "first_render_failure (Render_pass (Render_fails e k) # evs) = Some (e, k)"
| "first_render_failure (ev # evs) = first_render_failure evs"

fun last_rendered :: "'v shown \<Rightarrow> 'v event list \<Rightarrow> 'v shown" where
  "last_rendered v [] = v"
| "last_rendered v (Render_pass (Renders v') # evs) = last_rendered (Subtree v') evs"
| "last_rendered v (ev # evs) = last_rendered v evs"

section \<open>Properties of the rounding to a double\<close>

text \<open>\<open>binary_exponent\<close> is the exponent it is meant to be.\<close>

lemma binary_exponent_bounds:
  assumes "q \<noteq> 0"
  shows "2 powi binary_exponent q \<le> \<bar>q\<bar> \<and> \<bar>q\<bar> < 2 powi (binary_exponent q + 1)"
proof (cases "1 \<le> \<bar>q\<bar>")
  case True
  define n where "n = \<lfloor>\<bar>q\<bar>\<rfloor>"
  have n: "1 \<le> n" using True by (simp add: n_def le_floor_iff)
  then have pos: "0 < n" by simp
  have b1: "1 \<le> bitlen n" using pos by (simp add: bitlen_alt_def)
  from bitlen_bounds [OF pos] have lo: "2 ^ nat (bitlen n - 1) \<le> n" and hi: "n < 2 ^ nat (bitlen n)"
    by simp_all
  have e: "binary_exponent q = bitlen n - 1"
    using True by (simp add: binary_exponent_def n_def)
  have "rat_of_int (2 ^ nat (bitlen n - 1)) \<le> of_int n"
    using lo by (simp only: of_int_le_iff)
  also have "\<dots> \<le> \<bar>q\<bar>" by (simp add: n_def)
  finally have l: "2 powi (bitlen n - 1) \<le> \<bar>q\<bar>"
    using b1 by (simp add: power_int_def)
  have "n + 1 \<le> 2 ^ nat (bitlen n)" using hi by simp
  then have "rat_of_int (n + 1) \<le> of_int (2 ^ nat (bitlen n))"
    by (simp only: of_int_le_iff)
  moreover have "\<bar>q\<bar> < of_int (n + 1)"
    unfolding n_def by (simp add: floor_less_iff [symmetric] del: of_int_add) 
  ultimately have "\<bar>q\<bar> < of_int (2 ^ nat (bitlen n))" by linarith
  then have "\<bar>q\<bar> < 2 powi (bitlen n - 1 + 1)"
    using b1 by (simp add: power_int_def)
  with l show ?thesis by (simp only: e)
next
  case False
  define t where "t = 1 / \<bar>q\<bar>"
  define c where "c = \<lceil>t\<rceil> - 1"
  have qpos: "0 < \<bar>q\<bar>" using assms by simp
  have t1: "1 < t" using False qpos by (simp add: t_def)
  have "1 < \<lceil>t\<rceil>" using t1 by (simp add: less_ceiling_iff)
  then have c1: "1 \<le> c" by (simp add: c_def)
  then have pos: "0 < c" by simp
  have ct: "of_int c < t" "t \<le> of_int c + 1"
    unfolding c_def by (simp_all add: ceiling_correct less_ceiling_iff [symmetric])
  have b1: "1 \<le> bitlen c" using pos by (simp add: bitlen_alt_def)
  from bitlen_bounds [OF pos] have lo: "2 ^ nat (bitlen c - 1) \<le> c" and hi: "c < 2 ^ nat (bitlen c)"
    by simp_all
  have e: "binary_exponent q = - bitlen c"
    using False by (simp add: binary_exponent_def c_def t_def)
  have "rat_of_int (2 ^ nat (bitlen c - 1)) \<le> of_int c"
    using lo by (simp only: of_int_le_iff)
  then have "(2::rat) ^ nat (bitlen c - 1) \<le> of_int c"
    by simp
  with ct(1) have tl: "(2::rat) ^ nat (bitlen c - 1) < t" by linarith
  have "c + 1 \<le> 2 ^ nat (bitlen c)" using hi by simp
  then have "rat_of_int (c + 1) \<le> of_int (2 ^ nat (bitlen c))"
    by (simp only: of_int_le_iff)
  then have "rat_of_int c + 1 \<le> (2::rat) ^ nat (bitlen c)"
    by simp
  with ct(2) have th: "t \<le> (2::rat) ^ nat (bitlen c)" by linarith
  have q: "\<bar>q\<bar> = 1 / t" by (simp add: t_def)
  have tpos: "0 < t" using t1 by simp
  have "1 / (2::rat) ^ nat (bitlen c) \<le> 1 / t"
    using th tpos by (simp add: frac_le)
  then have l: "2 powi (- bitlen c) \<le> \<bar>q\<bar>"
    using b1 by (simp add: power_int_def q field_simps)
  have "1 / t < 1 / (2::rat) ^ nat (bitlen c - 1)"
    using tl by (simp add: frac_less2)
  moreover have "2 powi (- bitlen c + 1) = 1 / (2::rat) ^ nat (bitlen c - 1)"
  proof (cases "bitlen c = 1")
    case True
    then show ?thesis by simp
  next
    case False
    with b1 have "nat (- (- bitlen c + 1)) = nat (bitlen c - 1)" "\<not> 0 \<le> - bitlen c + 1"
      by simp_all
    then show ?thesis
      by (simp add: power_int_def field_simps)
  qed
  ultimately have "\<bar>q\<bar> < 2 powi (- bitlen c + 1)"
    by (simp only: q)
  with l show ?thesis by (simp only: e)
qed

lemma round_half_even_of_int [simp]: "round_half_even (of_int k) = k"
  by (simp add: round_half_even_def)

lemma round_half_even_bounds: "\<lfloor>t\<rfloor> \<le> round_half_even t" "round_half_even t \<le> \<lfloor>t\<rfloor> + 1"
  by (simp_all add: round_half_even_def)

lemma binary_exponent_of_int:
  assumes "m \<noteq> 0"
  shows "binary_exponent (of_int m) = bitlen \<bar>m\<bar> - 1"
proof -
  from assms have "1 \<le> \<bar>m\<bar>" by linarith
  then have "(1::rat) \<le> \<bar>of_int m\<bar>"
    by (metis of_int_1_le_iff of_int_abs)
  then show ?thesis
    by (simp add: binary_exponent_def flip: of_int_abs)
qed

lemma bitlen_abs_bounds:
  assumes "m \<noteq> 0"
  shows "1 \<le> bitlen \<bar>m\<bar>"
    and "2 ^ nat (bitlen \<bar>m\<bar> - 1) \<le> \<bar>m\<bar>"
    and "\<bar>m\<bar> < 2 ^ nat (bitlen \<bar>m\<bar>)"
proof -
  from assms have pos: "0 < \<bar>m\<bar>" by simp
  from bitlen_bounds [OF pos] show "2 ^ nat (bitlen \<bar>m\<bar> - 1) \<le> \<bar>m\<bar>"
    and "\<bar>m\<bar> < 2 ^ nat (bitlen \<bar>m\<bar>)" by simp_all
  from pos show "1 \<le> bitlen \<bar>m\<bar>"
    by (simp add: bitlen_alt_def)
qed

text \<open>An integer of at most 53 bits is a double.\<close>

lemma round_to_double_short:
  assumes "m \<noteq> 0" and "bitlen \<bar>m\<bar> \<le> 53"
  shows "round_to_double (of_int m) = of_int m"
proof -
  define k where "k = nat (53 - bitlen \<bar>m\<bar>)"
  have e: "binary_exponent (of_int m) - 52 = - int k"
    using assms by (simp add: binary_exponent_of_int k_def)
  have u: "(2::rat) powi (- int k) = 1 / 2 ^ k"
    by (simp add: power_int_minus field_simps)
  have "rat_of_int m / (1 / 2 ^ k) = of_int (m * 2 ^ k)"
    by simp
  then have "round_half_even (rat_of_int m / (1 / 2 ^ k)) = m * 2 ^ k"
    by (simp only: round_half_even_of_int)
  then show ?thesis
    using assms(1) by (simp add: round_to_double_def e u)
qed

lemma round_to_double_small:
  assumes "\<bar>m\<bar> \<le> 2 ^ 53"
  shows "round_to_double (of_int m) = of_int m"
proof (cases "m = 0")
  case True
  then show ?thesis by (simp add: round_to_double_def)
next
  case False
  show ?thesis
  proof (cases "\<bar>m\<bar> = 2 ^ 53")
    case True
    then have b: "bitlen \<bar>m\<bar> = 54"
      using bitlen_pow2 [of 1 53] by (simp add: bitlen_alt_def)
    have "2 dvd \<bar>m\<bar>"
      unfolding True by simp
    then have "2 dvd m" by simp
    then obtain c where c: "m = 2 * c" ..
    have e: "binary_exponent (rat_of_int m) - 52 = 1"
      using False b by (simp add: binary_exponent_of_int)
    have "rat_of_int m / 2 = rat_of_int c"
      by (simp add: c)
    then have "round_half_even (rat_of_int m / 2) = c"
      by (simp only: round_half_even_of_int)
    moreover have "rat_of_int c * 2 = rat_of_int m"
      by (simp add: c)
    moreover have "rat_of_int m \<noteq> 0"
      using False by simp
    ultimately show ?thesis
      unfolding round_to_double_def e by simp
  next
    case neq: False
    with assms have lt: "\<bar>m\<bar> < 2 ^ 53" by simp
    have "bitlen \<bar>m\<bar> \<le> 53"
    proof (rule ccontr)
      assume "\<not> bitlen \<bar>m\<bar> \<le> 53"
      then have "53 \<le> nat (bitlen \<bar>m\<bar> - 1)" by simp
      then have "(2::int) ^ 53 \<le> 2 ^ nat (bitlen \<bar>m\<bar> - 1)"
        by (rule power_increasing) simp
      with bitlen_abs_bounds(2) [OF False] lt show False by linarith
    qed
    with False show ?thesis by (rule round_to_double_short)
  qed
qed

text \<open>The double nearest an integer is an integer of the same sign.\<close>

lemma round_to_double_of_int:
  "\<exists>n. round_to_double (of_int m) = of_int n \<and> (1 \<le> n \<longleftrightarrow> 1 \<le> m)"
proof (cases "m = 0")
  case True
  have "round_to_double (rat_of_int 0) = rat_of_int 0 \<and> ((1::int) \<le> 0 \<longleftrightarrow> (1::int) \<le> 0)"
    by (simp add: round_to_double_def)
  with True show ?thesis by blast
next
  case False
  show ?thesis
  proof (cases "bitlen \<bar>m\<bar> \<le> 53")
    case True
    with False have "round_to_double (of_int m) = of_int m"
      by (rule round_to_double_short)
    then show ?thesis by blast
  next
    case long: False
    define j where "j = nat (bitlen \<bar>m\<bar> - 53)"
    have j: "binary_exponent (of_int m) - 52 = int j" "0 < j"
      using False long by (simp_all add: binary_exponent_of_int j_def)
    define t where "t = rat_of_int m / 2 ^ j"
    have r: "round_to_double (of_int m) = of_int (round_half_even t * 2 ^ j)"
      using False by (simp add: round_to_double_def j t_def)
    have low: "(2::int) ^ (52 + j) \<le> \<bar>m\<bar>"
    proof -
      have "52 + j = nat (bitlen \<bar>m\<bar> - 1)" using long by (simp add: j_def)
      with bitlen_abs_bounds(2) [OF False] show ?thesis by simp
    qed
    have sign: "1 \<le> round_half_even t * 2 ^ j \<longleftrightarrow> 1 \<le> m"
    proof (cases "0 \<le> m")
      case True
      with low have "rat_of_int (2 ^ (52 + j)) \<le> of_int m"
        by (simp only: of_int_le_iff abs_of_nonneg)
      then have "(2::rat) ^ 52 \<le> t"
        by (simp add: t_def power_add field_simps)
      then have "(2::int) ^ 52 \<le> \<lfloor>t\<rfloor>"
        by (simp add: le_floor_iff)
      moreover have "(1::int) \<le> 2 ^ 52" by simp
      ultimately have "1 \<le> round_half_even t"
        using round_half_even_bounds(1) [of t] by linarith
      moreover have "(1::int) \<le> 2 ^ j" by simp
      ultimately have "1 \<le> round_half_even t * 2 ^ j"
        by (metis mult_mono mult_1 zero_le_one order_trans)
      moreover from True False have "1 \<le> m" by linarith
      ultimately show ?thesis by simp
    next
      case neg: False
      then have "\<bar>m\<bar> = - m" by simp
      with low have "rat_of_int (2 ^ (52 + j)) \<le> of_int (- m)"
        by (simp only: of_int_le_iff)
      then have "t \<le> - ((2::rat) ^ 52)"
        by (simp add: t_def power_add field_simps)
      also have "\<dots> = rat_of_int (- (2 ^ 52))" by simp
      finally have "t < rat_of_int (- (2 ^ 52)) + 1" by linarith
      then have "\<lfloor>t\<rfloor> \<le> - ((2::int) ^ 52)"
        by (simp only: floor_le_iff)
      moreover have "(1::int) \<le> 2 ^ 52" by simp
      ultimately have "round_half_even t \<le> 0"
        using round_half_even_bounds(2) [of t] by linarith
      then have "round_half_even t * 2 ^ j \<le> 0"
        by (simp add: mult_le_0_iff)
      with neg show ?thesis by linarith
    qed
    from r sign show ?thesis by blast
  qed
qed

lemma round_half_even_tie:
  "round_half_even (of_int k + 1 / 2) = (if even k then k else k + 1)"
proof -
  have "\<lfloor>rat_of_int k + 1 / 2\<rfloor> = k"
    by (simp add: floor_eq_iff)
  then show ?thesis
    by (simp add: round_half_even_def)
qed

lemma round_to_double_tie: "round_to_double (of_int (2 ^ 53 + 1)) = of_int (2 ^ 53)"
proof -
  define m :: int where "m = 2 ^ 53 + 1"
  have "bitlen m = int (53 + 1)"
    unfolding m_def by (rule bitlen_twopow_add_eq) simp_all
  moreover have "0 < m" by (simp add: m_def)
  ultimately have e: "binary_exponent (rat_of_int m) - 52 = 1"
    by (simp add: binary_exponent_of_int)
  have "rat_of_int m / 2 = of_int (2 ^ 52) + 1 / 2"
    by (simp add: m_def)
  then have "round_half_even (rat_of_int m / 2) = 2 ^ 52"
    by (simp only: round_half_even_tie) simp
  moreover have "rat_of_int m \<noteq> 0" by (simp add: m_def)
  ultimately have "round_to_double (rat_of_int m) = of_int (2 ^ 53)"
    unfolding round_to_double_def e by simp
  then show ?thesis by (simp only: m_def)
qed

section \<open>Properties of the numeric coercions\<close>

lemma round_half_up_eq_iff:
  "round_half_up q = n \<longleftrightarrow> of_int n - 1 / 2 \<le> q \<and> q < of_int n + 1 / 2"
  unfolding round_half_up_def floor_eq_iff by auto

lemma round_half_up_of_int [simp]: "round_half_up (of_int k) = k"
  by (simp add: round_half_up_eq_iff)

lemma round_half_up_nonneg_iff: "0 \<le> round_half_up q \<longleftrightarrow> - (1 / 2) \<le> q"
proof -
  have "0 \<le> round_half_up q \<longleftrightarrow> (0::rat) \<le> q + 1 / 2"
    unfolding round_half_up_def by (simp only: zero_le_floor)
  then show ?thesis by auto
qed

lemma w_v13: "w (mapRecord_v13 S r) = or_number (Math_round (Number S (W r))) (Fin 2)"
  by (simp add: mapRecord_v13_def)

lemma h_v13: "h (mapRecord_v13 S r) = or_number (Math_round (Number S (H r))) (Fin 1)"
  by (simp add: mapRecord_v13_def)

lemma w_v2_3: "w (mapRecord_v2_3 S r) = or_number (Math_round (Number S (W r))) (Fin 2)"
  by (simp add: mapRecord_v2_3_def)

lemma h_v2_3: "h (mapRecord_v2_3 S r) = or_number (Math_round (Number S (H r))) (Fin 1)"
  by (simp add: mapRecord_v2_3_def)

lemma x_v13:
  "x (mapRecord_v13 S r) = plus_number (or_number (Math_round (Number S (X r))) (Fin 0)) (Fin 1)"
  by (simp add: mapRecord_v13_def)

lemma y_v13:
  "y (mapRecord_v13 S r) = plus_number (or_number (Math_round (Number S (Y r))) (Fin 0)) (Fin 1)"
  by (simp add: mapRecord_v13_def)

lemma x_v2_3:
  "x (mapRecord_v2_3 S r) = plus_number (or_number (Math_round (Number S (X r))) (Fin 0)) (Fin 1)"
  by (simp add: mapRecord_v2_3_def)

lemma y_v2_3:
  "y (mapRecord_v2_3 S r) = plus_number (or_number (Math_round (Number S (Y r))) (Fin 0)) (Fin 1)"
  by (simp add: mapRecord_v2_3_def)

text \<open>
  The size expression \<open>Math.round(n) || d\<close> by the kind of \<open>n\<close>: the default \<open>d\<close>
  stands in for \<open>NaN\<close> and for a zero; an infinity is truthy and stays.
\<close>

lemma or_number_round_cases:
  "or_number (Math_round n) d =
     (case n of
        Fin q \<Rightarrow> if round_half_up q = 0 then d else Fin (of_int (round_half_up q))
      | NaN \<Rightarrow> d
      | PosInfinity \<Rightarrow> PosInfinity
      | NegInfinity \<Rightarrow> NegInfinity)"
  by (cases n) (simp_all add: or_number_def truthy_number_def)

text \<open>The position expression \<open>(Math.round(n) || 0) + 1\<close> by the kind of \<open>n\<close>.\<close>

lemma position_cases:
  "plus_number (or_number (Math_round n) (Fin 0)) (Fin 1) =
     (case n of
        Fin q \<Rightarrow> Fin (round_to_double (of_int (round_half_up q + 1)))
      | NaN \<Rightarrow> Fin 1
      | PosInfinity \<Rightarrow> PosInfinity
      | NegInfinity \<Rightarrow> NegInfinity)"
proof -
  have one: "round_to_double 1 = 1"
    using round_to_double_small [of 1] by simp
  show ?thesis
    by (cases n) (simp_all add: or_number_def truthy_number_def one)
qed

text \<open>The position is an integer from 1 on exactly for \<open>NaN\<close> and for \<open>n \<ge> -0.5\<close>.\<close>

lemma one_based_cases:
  "(\<exists>n::int. plus_number (or_number (Math_round v) (Fin 0)) (Fin 1) = Fin (of_int n) \<and> 1 \<le> n) \<longleftrightarrow>
   (case v of Fin q \<Rightarrow> - (1 / 2) \<le> q | NaN \<Rightarrow> True | _ \<Rightarrow> False)"
proof (cases v)
  case (Fin q)
  obtain k where k: "round_to_double (of_int (round_half_up q + 1)) = of_int k"
    and sign: "1 \<le> k \<longleftrightarrow> 1 \<le> round_half_up q + 1"
    using round_to_double_of_int [of "round_half_up q + 1"] by blast
  have "(\<exists>n::int. rat_of_int k = rat_of_int n \<and> 1 \<le> n) \<longleftrightarrow> 1 \<le> k"
    by auto
  then show ?thesis
    unfolding position_cases Fin
    by (simp add: k sign round_half_up_nonneg_iff del: of_int_add)
next
  case NaN
  have "Fin 1 = Fin (rat_of_int 1) \<and> (1::int) \<le> 1" by simp
  then have "\<exists>n::int. Fin 1 = Fin (rat_of_int n) \<and> 1 \<le> n" by blast
  then show ?thesis unfolding position_cases NaN by simp
next
  case PosInfinity
  show ?thesis unfolding position_cases PosInfinity by simp
next
  case NegInfinity
  show ?thesis unfolding position_cases NegInfinity by simp
qed

text \<open>
  C1, as stated, fails on the code at two inputs. \<open>W = Infinity\<close> (the Number, or the
  string \<open>"Infinity"\<close> for \<open>H\<close>) converts to a non-finite value, and the mapped size is
  that infinity, not the default. \<open>W = 0\<close> converts to a finite number that rounds to
  0, and the mapped \<open>w\<close> is the default 2 (\<open>h\<close> the default 1), not the rounded value.
\<close>

theorem size_coercion_counterexample:
  "w (mapRecord_v13 StringToNumber_sample
        (numeric_row 1 Undefined Undefined (Num PosInfinity) (Str ''Infinity''))) = PosInfinity \<and>
   h (mapRecord_v2_3 StringToNumber_sample
        (numeric_row 1 Undefined Undefined (Num PosInfinity) (Str ''Infinity''))) = PosInfinity \<and>
   Math_round (Number StringToNumber_sample (Num (Fin 0))) = Fin 0 \<and>
   w (mapRecord_v13 StringToNumber_sample
        (numeric_row 1 Undefined Undefined (Num (Fin 0)) (Num (Fin 0)))) = Fin 2 \<and>
   h (mapRecord_v2_3 StringToNumber_sample
        (numeric_row 1 Undefined Undefined (Num (Fin 0)) (Num (Fin 0)))) = Fin 1"
  by (simp add: w_v13 h_v2_3 numeric_row_def StringToNumber_sample_def or_number_def
      truthy_number_def round_half_up_eq_iff)

text \<open>
  C1, amended. Both widget versions map \<open>W\<close> and \<open>H\<close> alike. The default (\<open>w = 2\<close>,
  \<open>h = 1\<close>) is taken exactly when the field converts to \<open>NaN\<close> (a missing field does,
  and so does a string that is no numeral) or to a finite number that rounds to 0; a
  finite number that rounds to another integer maps to that integer; an infinity maps to
  itself.
\<close>

theorem size_coercion:
  "w (mapRecord_v13 S r) = w (mapRecord_v2_3 S r) \<and>
   h (mapRecord_v13 S r) = h (mapRecord_v2_3 S r) \<and>
   w (mapRecord_v2_3 S r) =
     (case Number S (W r) of
        Fin q \<Rightarrow> if round_half_up q = 0 then Fin 2 else Fin (of_int (round_half_up q))
      | NaN \<Rightarrow> Fin 2
      | PosInfinity \<Rightarrow> PosInfinity
      | NegInfinity \<Rightarrow> NegInfinity) \<and>
   h (mapRecord_v2_3 S r) =
     (case Number S (H r) of
        Fin q \<Rightarrow> if round_half_up q = 0 then Fin 1 else Fin (of_int (round_half_up q))
      | NaN \<Rightarrow> Fin 1
      | PosInfinity \<Rightarrow> PosInfinity
      | NegInfinity \<Rightarrow> NegInfinity) \<and>
   (W r = Undefined \<longrightarrow> w (mapRecord_v2_3 S r) = Fin 2) \<and>
   (H r = Undefined \<longrightarrow> h (mapRecord_v2_3 S r) = Fin 1)"
  unfolding w_v13 w_v2_3 h_v13 h_v2_3 or_number_round_cases by simp

theorem size_coercion_witness:
  "W (numeric_row 1 Undefined Undefined Undefined (Num (Fin (7 / 2)))) = Undefined \<and>
   w (mapRecord_v2_3 StringToNumber_sample
        (numeric_row 1 Undefined Undefined Undefined (Num (Fin (7 / 2))))) = Fin 2 \<and>
   h (mapRecord_v13 StringToNumber_sample
        (numeric_row 1 Undefined Undefined Undefined (Num (Fin (7 / 2))))) = Fin 4"
proof -
  have r: "round_half_up (7 / 2) = 4"
    by (simp add: round_half_up_eq_iff)
  show ?thesis
    using size_coercion [of StringToNumber_sample
        "numeric_row 1 Undefined Undefined Undefined (Num (Fin (7 / 2)))"]
    by (simp add: numeric_row_def r)
qed

text \<open>
  C3, as stated, fails on the code at two inputs. Where \<open>X\<close> or \<open>Y\<close> converts to an
  infinity, the claim has the value default to 0, so that the position is 1, and the code
  returns the infinity. Where \<open>X = 2 ^ 53\<close>, the sum \<open>round(X) + 1\<close> is no double, and
  the code returns the double nearest to it, which is \<open>2 ^ 53\<close> itself.
\<close>

theorem position_counterexample:
  "Number StringToNumber_sample (Str ''Infinity'') = PosInfinity \<and>
   x (mapRecord_v13 StringToNumber_sample
        (numeric_row 1 (Str ''Infinity'') (Num NegInfinity) Undefined Undefined)) = PosInfinity \<and>
   y (mapRecord_v2_3 StringToNumber_sample
        (numeric_row 1 (Str ''Infinity'') (Num NegInfinity) Undefined Undefined)) = NegInfinity \<and>
   round_half_up (2 ^ 53) = 2 ^ 53 \<and>
   x (mapRecord_v13 StringToNumber_sample
        (numeric_row 1 (Num (Fin (2 ^ 53))) Undefined Undefined Undefined)) = Fin (2 ^ 53)"
proof -
  have r: "round_half_up (2 ^ 53) = 2 ^ 53"
    using round_half_up_of_int [of "2 ^ 53"] by simp
  have "round_to_double (rat_of_int (round_half_up (2 ^ 53) + 1)) = 2 ^ 53"
    using round_to_double_tie by (simp only: r) simp
  then have big: "x (mapRecord_v13 StringToNumber_sample
        (numeric_row 1 (Num (Fin (2 ^ 53))) Undefined Undefined Undefined)) = Fin (2 ^ 53)"
    unfolding x_v13 position_cases by (simp add: numeric_row_def)
  have inf: "Number StringToNumber_sample (Str ''Infinity'') = PosInfinity"
    "x (mapRecord_v13 StringToNumber_sample
        (numeric_row 1 (Str ''Infinity'') (Num NegInfinity) Undefined Undefined)) = PosInfinity"
    "y (mapRecord_v2_3 StringToNumber_sample
        (numeric_row 1 (Str ''Infinity'') (Num NegInfinity) Undefined Undefined)) = NegInfinity"
    by (simp_all add: x_v13 y_v2_3 numeric_row_def StringToNumber_sample_def or_number_def
        truthy_number_def)
  from inf r big show ?thesis by blast
qed

text \<open>
  C3, amended. Both widget versions map \<open>X\<close> and \<open>Y\<close> alike. A field that converts
  to a finite number maps to the double nearest to its rounded value plus 1, which is the
  rounded value plus 1 itself whenever that sum is at most \<open>2 ^ 53\<close> in magnitude; one
  that converts to \<open>NaN\<close> (missing, or a string that is no numeral) maps to 1; one that
  converts to an infinity maps to that infinity.
\<close>

theorem position_coercion:
  "x (mapRecord_v13 S r) = x (mapRecord_v2_3 S r) \<and>
   y (mapRecord_v13 S r) = y (mapRecord_v2_3 S r) \<and>
   x (mapRecord_v2_3 S r) =
     (case Number S (X r) of
        Fin q \<Rightarrow>
          if \<bar>round_half_up q + 1\<bar> \<le> 2 ^ 53 then Fin (of_int (round_half_up q + 1))
          else Fin (round_to_double (of_int (round_half_up q + 1)))
      | NaN \<Rightarrow> Fin 1
      | PosInfinity \<Rightarrow> PosInfinity
      | NegInfinity \<Rightarrow> NegInfinity) \<and>
   y (mapRecord_v2_3 S r) =
     (case Number S (Y r) of
        Fin q \<Rightarrow>
          if \<bar>round_half_up q + 1\<bar> \<le> 2 ^ 53 then Fin (of_int (round_half_up q + 1))
          else Fin (round_to_double (of_int (round_half_up q + 1)))
      | NaN \<Rightarrow> Fin 1
      | PosInfinity \<Rightarrow> PosInfinity
      | NegInfinity \<Rightarrow> NegInfinity)"
proof -
  have "plus_number (or_number (Math_round n) (Fin 0)) (Fin 1) =
     (case n of
        Fin q \<Rightarrow>
          if \<bar>round_half_up q + 1\<bar> \<le> 2 ^ 53 then Fin (of_int (round_half_up q + 1))
          else Fin (round_to_double (of_int (round_half_up q + 1)))
      | NaN \<Rightarrow> Fin 1
      | PosInfinity \<Rightarrow> PosInfinity
      | NegInfinity \<Rightarrow> NegInfinity)" for n
    unfolding position_cases
    by (cases n) (simp_all add: round_to_double_small del: of_int_add)
  then show ?thesis
    unfolding x_v13 x_v2_3 y_v13 y_v2_3 by simp
qed

theorem position_coercion_witness:
  "x (mapRecord_v2_3 StringToNumber_sample
        (numeric_row 1 (Num (Fin (18 / 5))) (Str ''bad'') Undefined Undefined)) = Fin 5 \<and>
   y (mapRecord_v13 StringToNumber_sample
        (numeric_row 1 (Num (Fin (18 / 5))) (Str ''bad'') Undefined Undefined)) = Fin 1"
proof -
  have r: "round_half_up (18 / 5) = 4"
    by (simp add: round_half_up_eq_iff)
  show ?thesis
    using position_coercion [of StringToNumber_sample
        "numeric_row 1 (Num (Fin (18 / 5))) (Str ''bad'') Undefined Undefined"]
    by (simp add: numeric_row_def StringToNumber_sample_def r)
qed

text \<open>
  The two examples of the specification, for any engine: \<open>X = 3.6\<close> gives \<open>x = 5\<close>,
  and \<open>X = "bad"\<close>, which no engine converts to a number, gives \<open>x = 1\<close>.
\<close>

lemma position_examples:
  "x (mapRecord_v2_3 S (numeric_row 1 (Num (Fin (18 / 5))) Undefined Undefined Undefined)) = Fin 5"
  "x (mapRecord_v13 S (numeric_row 1 (Num (Fin (18 / 5))) Undefined Undefined Undefined)) = Fin 5"
  "S (Str ''bad'') = NaN \<Longrightarrow>
     x (mapRecord_v2_3 S (numeric_row 1 (Str ''bad'') Undefined Undefined Undefined)) = Fin 1"
  "S (Str ''bad'') = NaN \<Longrightarrow>
     x (mapRecord_v13 S (numeric_row 1 (Str ''bad'') Undefined Undefined Undefined)) = Fin 1"
proof -
  have r: "round_half_up (18 / 5) = 4"
    by (simp add: round_half_up_eq_iff)
  have d: "round_to_double 5 = 5"
    using round_to_double_small [of 5] by simp
  show "x (mapRecord_v2_3 S (numeric_row 1 (Num (Fin (18 / 5))) Undefined Undefined Undefined)) = Fin 5"
    unfolding x_v2_3 position_cases by (simp add: numeric_row_def r d)
  show "x (mapRecord_v13 S (numeric_row 1 (Num (Fin (18 / 5))) Undefined Undefined Undefined)) = Fin 5"
    unfolding x_v13 position_cases by (simp add: numeric_row_def r d)
  show "S (Str ''bad'') = NaN \<Longrightarrow>
     x (mapRecord_v2_3 S (numeric_row 1 (Str ''bad'') Undefined Undefined Undefined)) = Fin 1"
    unfolding x_v2_3 position_cases by (simp add: numeric_row_def)
  show "S (Str ''bad'') = NaN \<Longrightarrow>
     x (mapRecord_v13 S (numeric_row 1 (Str ''bad'') Undefined Undefined Undefined)) = Fin 1"
    unfolding x_v13 position_cases by (simp add: numeric_row_def)
qed

text \<open>
  C9, as stated, fails on the code for a negative coordinate: \<open>X = -5\<close> maps to
  \<open>x = -4\<close>, which is below 1. (An infinity, see C3, maps to no integer at all.)
\<close>

theorem one_based_counterexample:
  "x (mapRecord_v13 StringToNumber_sample
        (numeric_row 1 (Num (Fin (- 5))) (Num (Fin (- 5))) Undefined Undefined)) = Fin (- 4) \<and>
   y (mapRecord_v2_3 StringToNumber_sample
        (numeric_row 1 (Num (Fin (- 5))) (Num (Fin (- 5))) Undefined Undefined)) = Fin (- 4)"
proof -
  have r: "round_half_up (- 5) = - 5"
    by (simp add: round_half_up_eq_iff)
  have d: "round_to_double (- 4) = - 4"
    using round_to_double_small [of "- 4"] by simp
  show ?thesis
    unfolding x_v13 y_v2_3 position_cases by (simp add: numeric_row_def r d)
qed

text \<open>
  C9, amended. In both widget versions the mapped \<open>x\<close> (respectively \<open>y\<close>) is an
  integer and at least 1 exactly when \<open>X\<close> (respectively \<open>Y\<close>) converts to \<open>NaN\<close>
  or to a finite number from \<open>-0.5\<close> on; this covers every 0-based coordinate of the
  host, and leaves out the negative numbers below \<open>-0.5\<close> and the infinities.
\<close>

theorem one_based_position:
  "((\<exists>n::int. x (mapRecord_v13 S r) = Fin (of_int n) \<and> 1 \<le> n) \<longleftrightarrow>
      (case Number S (X r) of Fin q \<Rightarrow> - (1 / 2) \<le> q | NaN \<Rightarrow> True | _ \<Rightarrow> False)) \<and>
   ((\<exists>n::int. y (mapRecord_v13 S r) = Fin (of_int n) \<and> 1 \<le> n) \<longleftrightarrow>
      (case Number S (Y r) of Fin q \<Rightarrow> - (1 / 2) \<le> q | NaN \<Rightarrow> True | _ \<Rightarrow> False)) \<and>
   x (mapRecord_v2_3 S r) = x (mapRecord_v13 S r) \<and>
   y (mapRecord_v2_3 S r) = y (mapRecord_v13 S r)"
  unfolding x_v13 x_v2_3 y_v13 y_v2_3 one_based_cases by simp

theorem one_based_position_witness:
  "(\<exists>n::int. x (mapRecord_v13 StringToNumber_sample
        (numeric_row 1 (Num (Fin 0)) Undefined Undefined Undefined)) = Fin (of_int n) \<and> 1 \<le> n) \<and>
   (\<exists>n::int. y (mapRecord_v2_3 StringToNumber_sample
        (numeric_row 1 (Num (Fin 0)) Undefined Undefined Undefined)) = Fin (of_int n) \<and> 1 \<le> n)"
  using one_based_position [of StringToNumber_sample
      "numeric_row 1 (Num (Fin 0)) Undefined Undefined Undefined"]
  by (simp add: numeric_row_def)

text \<open>
  C10. When \<open>W\<close> (respectively \<open>H\<close>) converts to a finite number that rounds to 0, the
  mapped \<open>w\<close> is the default 2 (respectively \<open>h\<close> the default 1), in both widget
  versions: \<open>||\<close> takes the zero for a missing value.
\<close>

theorem zero_size_takes_default:
  "(Number S (W r) = Fin q \<and> round_half_up q = 0 \<longrightarrow>
      w (mapRecord_v13 S r) = Fin 2 \<and> w (mapRecord_v2_3 S r) = Fin 2) \<and>
   (Number S (H r) = Fin q \<and> round_half_up q = 0 \<longrightarrow>
      h (mapRecord_v13 S r) = Fin 1 \<and> h (mapRecord_v2_3 S r) = Fin 1)"
  unfolding w_v13 w_v2_3 h_v13 h_v2_3 or_number_round_cases by auto

theorem zero_size_takes_default_witness:
  "Number StringToNumber_sample
     (W (numeric_row 1 Undefined Undefined (Num (Fin (2 / 5))) (Str []))) = Fin (2 / 5) \<and>
   round_half_up (2 / 5) = 0 \<and>
   w (mapRecord_v13 StringToNumber_sample
        (numeric_row 1 Undefined Undefined (Num (Fin (2 / 5))) (Str []))) = Fin 2 \<and>
   w (mapRecord_v2_3 StringToNumber_sample
        (numeric_row 1 Undefined Undefined (Num (Fin (2 / 5))) (Str []))) = Fin 2 \<and>
   Number StringToNumber_sample
     (H (numeric_row 1 Undefined Undefined (Num (Fin (2 / 5))) (Str []))) = Fin 0 \<and>
   h (mapRecord_v13 StringToNumber_sample
        (numeric_row 1 Undefined Undefined (Num (Fin (2 / 5))) (Str []))) = Fin 1"
proof -
  have w0: "round_half_up (2 / 5) = 0" and h0: "round_half_up 0 = 0"
    by (simp_all add: round_half_up_eq_iff)
  show ?thesis
    using zero_size_takes_default [of StringToNumber_sample
        "numeric_row 1 Undefined Undefined (Num (Fin (2 / 5))) (Str [])" "2 / 5"]
      zero_size_takes_default [of StringToNumber_sample
        "numeric_row 1 Undefined Undefined (Num (Fin (2 / 5))) (Str [])" 0]
    by (simp add: numeric_row_def StringToNumber_sample_def w0 h0)
qed

section \<open>Properties of the element dispatcher\<close>

text \<open>
  C2, as stated, fails on the code for a menu tile whose \<open>pages\<close> holds exactly one
  sub-record: the claim sends it to the default component, the code renders the menu.
  The length the code tests is that of \<open>pages\<close> itself, which is 2 for every pair.
\<close>

theorem menu_dispatch_counterexample:
  "Element (menu_item (Arr [Str ''Pages'', Arr [page_record 1 ''Home'']])) =
     MenuElement (menu_item (Arr [Str ''Pages'', Arr [page_record 1 ''Home'']])) \<and>
   \<not> spec_menu_rule (menu_item (Arr [Str ''Pages'', Arr [page_record 1 ''Home'']]))"
  by (simp add: Element_def spec_menu_rule_def menu_item_def isArray_def array_length_def)

text \<open>
  C2, amended. \<open>Element\<close> renders the menu component exactly when the type is
  \<open>"Menu"\<close> and \<open>pages\<close> is an array of more than one element, whatever the
  number of sub-records in its second element; in every other case it renders the default
  component. The test is the one that makes \<open>pages[1]\<close>, the list \<open>MenuElement\<close>
  shows, exist. The rule of the specification is sufficient for the menu, not necessary.
\<close>

theorem menu_dispatch:
  "(Element item = MenuElement item \<longleftrightarrow>
      type item = Str ''Menu'' \<and> (\<exists>vs. pages item = Arr vs \<and> 1 < length vs)) \<and>
   (Element item = DefaultElement item \<longleftrightarrow>
      \<not> (type item = Str ''Menu'' \<and> (\<exists>vs. pages item = Arr vs \<and> 1 < length vs))) \<and>
   (Element item = MenuElement item \<longrightarrow>
      (\<exists>tableName subRecords rest.
         pages item = Arr (tableName # subRecords # rest) \<and> pageRecords item = subRecords)) \<and>
   (spec_menu_rule item \<longrightarrow> Element item = MenuElement item)"
proof -
  have menu: "Element item = MenuElement item \<longleftrightarrow>
      type item = Str ''Menu'' \<and> (\<exists>vs. pages item = Arr vs \<and> 1 < length vs)"
    by (cases "pages item") (simp_all add: Element_def isArray_def array_length_def)
  have default: "Element item = DefaultElement item \<longleftrightarrow> Element item \<noteq> MenuElement item"
    by (simp add: Element_def)
  have records: "\<exists>tableName subRecords rest.
      pages item = Arr (tableName # subRecords # rest) \<and> pageRecords item = subRecords"
    if "pages item = Arr vs" "1 < length vs" for vs
  proof -
    from that(2) obtain a b rest where "vs = a # b # rest"
      by (cases vs; cases "tl vs") auto
    with that(1) show ?thesis
      by (simp add: pageRecords_def isArray_def array_length_def)
  qed
  have spec: "spec_menu_rule item \<longrightarrow> Element item = MenuElement item"
    unfolding menu by (auto simp add: spec_menu_rule_def split: jsval.splits list.splits)
  show ?thesis
    using menu default records spec by metis
qed

theorem menu_dispatch_witness:
  "spec_menu_rule
     (menu_item (Arr [Str ''Pages'', Arr [page_record 1 ''Home'', page_record 2 ''About'']])) \<and>
   Element (menu_item (Arr [Str ''Pages'', Arr [page_record 1 ''Home'', page_record 2 ''About'']])) =
     MenuElement
       (menu_item (Arr [Str ''Pages'', Arr [page_record 1 ''Home'', page_record 2 ''About'']])) \<and>
   pageRecords
       (menu_item (Arr [Str ''Pages'', Arr [page_record 1 ''Home'', page_record 2 ''About'']])) =
     Arr [page_record 1 ''Home'', page_record 2 ''About'']"
  using menu_dispatch
    [of "menu_item (Arr [Str ''Pages'', Arr [page_record 1 ''Home'', page_record 2 ''About'']])"]
  by (simp add: spec_menu_rule_def menu_item_def)

section \<open>Properties of the records handler\<close>

text \<open>
  C7. In both widget versions an absent or empty batch leaves the status text of the
  empty configuration, which is what \<open>Dashboard\<close> then renders in place of the tiles and
  which differs from the status text set when the host global is missing. For a batch
  that is not empty the held list has the length of the batch, its \<open>i\<close>-th item is the
  image of the \<open>i\<close>-th row (so the ids come in the order of the rows), and the tiles
  are rendered.
\<close>

theorem records_handler:
  "render_v13 (onRecords_v13 S None st13) = StatusMessage ''Connected: 0 records found.'' \<and>
   render_v13 (onRecords_v13 S (Some []) st13) = StatusMessage ''Connected: 0 records found.'' \<and>
   status (onRecords_v13 S None st13) \<noteq> status (useEffect_v13 Grist_absent st13') \<and>
   status (onRecords_v13 S (Some []) st13) \<noteq> status (useEffect_v13 Grist_absent st13') \<and>
   render_v2_3 (onRecords_v2_3 S None st23) =
     StatusMessage ''No configuration found. Please link to the SysDashboard_Config table.'' \<and>
   render_v2_3 (onRecords_v2_3 S (Some []) st23) =
     StatusMessage ''No configuration found. Please link to the SysDashboard_Config table.'' \<and>
   status (onRecords_v2_3 S None st23) \<noteq> status (useEffect_v2_3 Grist_absent st23') \<and>
   status (onRecords_v2_3 S (Some []) st23) \<noteq> status (useEffect_v2_3 Grist_absent st23') \<and>
   (rs \<noteq> [] \<longrightarrow>
      length (items (onRecords_v13 S (Some rs) st13)) = length rs \<and>
      (\<forall>i < length rs. items (onRecords_v13 S (Some rs) st13) ! i = mapRecord_v13 S (rs ! i)) \<and>
      map item_id (items (onRecords_v13 S (Some rs) st13)) = map rec_id rs \<and>
      render_v13 (onRecords_v13 S (Some rs) st13) = Canvas (map (mapRecord_v13 S) rs) \<and>
      length (items (onRecords_v2_3 S (Some rs) st23)) = length rs \<and>
      (\<forall>i < length rs. items (onRecords_v2_3 S (Some rs) st23) ! i = mapRecord_v2_3 S (rs ! i)) \<and>
      map item_id (items (onRecords_v2_3 S (Some rs) st23)) = map rec_id rs \<and>
      render_v2_3 (onRecords_v2_3 S (Some rs) st23) =
        Canvas (map (\<lambda>r. Element (mapRecord_v2_3 S r)) rs))"
proof -
  have empty13:
    "render_v13 (onRecords_v13 S None st13) = StatusMessage ''Connected: 0 records found.''"
    "render_v13 (onRecords_v13 S (Some []) st13) = StatusMessage ''Connected: 0 records found.''"
    by (simp_all add: render_v13_def onRecords_v13_def)
  have distinct13:
    "status (onRecords_v13 S None st13) \<noteq> status (useEffect_v13 Grist_absent st13')"
    "status (onRecords_v13 S (Some []) st13) \<noteq> status (useEffect_v13 Grist_absent st13')"
    by (simp_all add: onRecords_v13_def useEffect_v13_def)
  have empty23:
    "render_v2_3 (onRecords_v2_3 S None st23) =
       StatusMessage ''No configuration found. Please link to the SysDashboard_Config table.''"
    "render_v2_3 (onRecords_v2_3 S (Some []) st23) =
       StatusMessage ''No configuration found. Please link to the SysDashboard_Config table.''"
    by (simp_all add: render_v2_3_def onRecords_v2_3_def)
  have distinct23:
    "status (onRecords_v2_3 S None st23) \<noteq> status (useEffect_v2_3 Grist_absent st23')"
    "status (onRecords_v2_3 S (Some []) st23) \<noteq> status (useEffect_v2_3 Grist_absent st23')"
    by (simp_all add: onRecords_v2_3_def useEffect_v2_3_def)
  have full13: "items (onRecords_v13 S (Some rs) st13) = map (mapRecord_v13 S) rs"
    "status (onRecords_v13 S (Some rs) st13) = None" if "rs \<noteq> []"
    using that by (simp_all add: onRecords_v13_def)
  have full23: "items (onRecords_v2_3 S (Some rs) st23) = map (mapRecord_v2_3 S) rs"
    "status (onRecords_v2_3 S (Some rs) st23) = None" if "rs \<noteq> []"
    using that by (simp_all add: onRecords_v2_3_def)
  have ids13: "map item_id (map (mapRecord_v13 S) rs) = map rec_id rs"
    by (simp add: mapRecord_v13_def)
  have ids23: "map item_id (map (mapRecord_v2_3 S) rs) = map rec_id rs"
    by (simp add: mapRecord_v2_3_def)
  have nonempty: "length (items (onRecords_v13 S (Some rs) st13)) = length rs \<and>
      (\<forall>i < length rs. items (onRecords_v13 S (Some rs) st13) ! i = mapRecord_v13 S (rs ! i)) \<and>
      map item_id (items (onRecords_v13 S (Some rs) st13)) = map rec_id rs \<and>
      render_v13 (onRecords_v13 S (Some rs) st13) = Canvas (map (mapRecord_v13 S) rs) \<and>
      length (items (onRecords_v2_3 S (Some rs) st23)) = length rs \<and>
      (\<forall>i < length rs. items (onRecords_v2_3 S (Some rs) st23) ! i = mapRecord_v2_3 S (rs ! i)) \<and>
      map item_id (items (onRecords_v2_3 S (Some rs) st23)) = map rec_id rs \<and>
      render_v2_3 (onRecords_v2_3 S (Some rs) st23) =
        Canvas (map (\<lambda>r. Element (mapRecord_v2_3 S r)) rs)" if "rs \<noteq> []"
    using full13 [OF that] full23 [OF that] ids13 ids23
    by (simp add: render_v13_def render_v2_3_def comp_def)
  show ?thesis
    using empty13 distinct13 empty23 distinct23 nonempty by blast
qed

theorem records_handler_witness:
  "[numeric_row 7 (Num (Fin 0)) (Num (Fin 0)) Undefined Undefined,
    numeric_row 3 (Num (Fin 2)) (Num (Fin 0)) Undefined Undefined] \<noteq> [] \<and>
   length (items (onRecords_v13 StringToNumber_sample
      (Some [numeric_row 7 (Num (Fin 0)) (Num (Fin 0)) Undefined Undefined,
             numeric_row 3 (Num (Fin 2)) (Num (Fin 0)) Undefined Undefined]) Dashboard_v13)) = 2 \<and>
   map item_id (items (onRecords_v13 StringToNumber_sample
      (Some [numeric_row 7 (Num (Fin 0)) (Num (Fin 0)) Undefined Undefined,
             numeric_row 3 (Num (Fin 2)) (Num (Fin 0)) Undefined Undefined]) Dashboard_v13)) =
     [Num (Fin 7), Num (Fin 3)] \<and>
   length (items (onRecords_v2_3 StringToNumber_sample
      (Some [numeric_row 7 (Num (Fin 0)) (Num (Fin 0)) Undefined Undefined,
             numeric_row 3 (Num (Fin 2)) (Num (Fin 0)) Undefined Undefined]) Dashboard_v2_3)) = 2 \<and>
   map item_id (items (onRecords_v2_3 StringToNumber_sample
      (Some [numeric_row 7 (Num (Fin 0)) (Num (Fin 0)) Undefined Undefined,
             numeric_row 3 (Num (Fin 2)) (Num (Fin 0)) Undefined Undefined]) Dashboard_v2_3)) =
     [Num (Fin 7), Num (Fin 3)] \<and>
   render_v13 (onRecords_v13 StringToNumber_sample None Dashboard_v13) =
     StatusMessage ''Connected: 0 records found.''"
  using records_handler [of StringToNumber_sample Dashboard_v13 Dashboard_v13 Dashboard_v2_3
      Dashboard_v2_3
      "[numeric_row 7 (Num (Fin 0)) (Num (Fin 0)) Undefined Undefined,
        numeric_row 3 (Num (Fin 2)) (Num (Fin 0)) Undefined Undefined]"]
  by (simp add: numeric_row_def)

section \<open>Properties of the navigation handler\<close>




text \<open>Neither handler does anything for an absent or empty target.\<close>

lemma no_target:
  "handleNavigate_v13 win None = Returned []"
  "handleNavigate_v13 win (Some []) = Returned []"
  "handleNavigate_v2_3 E win None = Returned []"
  "handleNavigate_v2_3 E win (Some []) = Returned []"
  by (simp_all add: handleNavigate_v13_def handleNavigate_v2_3_def)

text \<open>
  The handler of version 2.3 assigns every other target that does not start with \<open>#\<close>
  to \<open>location.href\<close>, and does nothing else, from a frame of any origin.
\<close>

lemma full_url_v2_3:
  "handleNavigate_v2_3 E win (Some u) = Returned [SetLocationHref u] \<longleftrightarrow>
     u \<noteq> [] \<and> \<not> startsWith u ''#''"
  by (simp add: handleNavigate_v2_3_def Let_def)

text \<open>The handler of \<open>src/App.jsx\<close> never reaches its assignment of the location.\<close>

lemma fallback_unreachable_v13: "handleNavigate_v13 win target \<noteq> Returned [SetLocationHref u]"
  by (simp add: handleNavigate_v13_def top_readable_def split: option.splits)




text \<open>
  C5, as stated, fails on the code at two inputs, both for a target of the top-level
  window's own origin: the handler of version 2.3 assigns it to \<open>location.href\<close>, a
  full replacement, and the handler of \<open>src/App.jsx\<close> in a widget frame of another
  origin raises \<open>SecurityError\<close> at its read of \<open>window.top.location\<close> and pushes
  nothing.
\<close>

theorem same_origin_target_counterexample:
  "resolved_origin embedded_same_origin ''https://docs.example/o/docs/abc/Budget'' =
     Some (origin (top_location embedded_same_origin)) \<and>
   handleNavigate_v2_3 plain_fragment embedded_same_origin
       (Some ''https://docs.example/o/docs/abc/Budget'') =
     Returned [SetLocationHref ''https://docs.example/o/docs/abc/Budget''] \<and>
   resolved_origin embedded_other_origin ''https://docs.example/o/docs/abc/Budget'' =
     Some (origin (top_location embedded_other_origin)) \<and>
   handleNavigate_v13 embedded_other_origin (Some ''https://docs.example/o/docs/abc/Budget'') =
     Threw SecurityError"
  by (simp add: handleNavigate_v2_3_def handleNavigate_v13_def startsWith_def top_readable_def
      embedded_same_origin_def embedded_other_origin_def sample_origin_def)

text \<open>
  C5, amended. For every target URL that is not empty, does not start with \<open>#\<close> and
  shares its origin with the top-level window: the handler of \<open>src/App.jsx\<close>, in a
  widget frame that has that origin too, pushes the target as a new history entry and
  dispatches \<open>popstate\<close> once, with no assignment of the location; the handler of
  version 2.3 has no such path and assigns the target to \<open>location.href\<close>.
\<close>

theorem push_target:
  assumes "u \<noteq> []" and "\<not> startsWith u ''#''"
    and "resolved_origin win u = Some (origin (top_location win))"
  shows "(origin (top_location win) = location_origin win \<longrightarrow>
            handleNavigate_v13 win (Some u) = Returned [PushState u, DispatchPopState]) \<and>
         handleNavigate_v2_3 E win (Some u) = Returned [SetLocationHref u]"
  using assms
  by (simp add: handleNavigate_v13_def handleNavigate_v2_3_def top_readable_def
      pushState_accepts_def)

theorem push_target_witness:
  "''https://docs.example/o/docs/abc/Budget'' \<noteq> [] \<and>
   \<not> startsWith ''https://docs.example/o/docs/abc/Budget'' ''#'' \<and>
   resolved_origin embedded_same_origin ''https://docs.example/o/docs/abc/Budget'' =
     Some (origin (top_location embedded_same_origin)) \<and>
   origin (top_location embedded_same_origin) = location_origin embedded_same_origin \<and>
   handleNavigate_v13 embedded_same_origin (Some ''https://docs.example/o/docs/abc/Budget'') =
     Returned [PushState ''https://docs.example/o/docs/abc/Budget'', DispatchPopState] \<and>
   handleNavigate_v2_3 plain_fragment embedded_same_origin
       (Some ''https://docs.example/o/docs/abc/Budget'') =
     Returned [SetLocationHref ''https://docs.example/o/docs/abc/Budget'']"
proof -
  have a: "''https://docs.example/o/docs/abc/Budget'' \<noteq> []"
    by simp
  have b: "\<not> startsWith ''https://docs.example/o/docs/abc/Budget'' ''#''"
    by (simp add: startsWith_def)
  have c: "resolved_origin embedded_same_origin ''https://docs.example/o/docs/abc/Budget'' =
      Some (origin (top_location embedded_same_origin))"
    by (simp add: embedded_same_origin_def sample_origin_def)
  have o: "origin (top_location embedded_same_origin) = location_origin embedded_same_origin"
    by (simp add: embedded_same_origin_def)
  show ?thesis
    using a b c o push_target [OF a b c, of plain_fragment] by simp
qed

text \<open>
  C6. The claim holds of the handler of version 2.3 and, for an absent or empty target,
  of both handlers. The handler of \<open>src/App.jsx\<close> breaks it: for the target
  \<open>https://other.example/x\<close> it performs no replacement of the location. In a widget
  frame of the top-level window's origin it gives the target to \<open>pushState\<close>, which
  raises \<open>SecurityError\<close>; in a frame of another origin its read of
  \<open>window.top.location\<close> raises. Its own assignment of \<open>location.href\<close>, which is
  what the claim asks for and what version 2.3 does, is not reached.
\<close>

theorem cross_origin_target:
  "resolved_origin embedded_same_origin ''https://other.example/x'' = Some ''https://other.example'' \<and>
   origin (top_location embedded_same_origin) = ''https://docs.example'' \<and>
   handleNavigate_v13 embedded_same_origin (Some ''https://other.example/x'') =
     Threw SecurityError \<and>
   handleNavigate_v13 embedded_other_origin (Some ''https://other.example/x'') =
     Threw SecurityError \<and>
   handleNavigate_v2_3 plain_fragment embedded_same_origin (Some ''https://other.example/x'') =
     Returned [SetLocationHref ''https://other.example/x''] \<and>
   handleNavigate_v2_3 plain_fragment embedded_other_origin (Some ''https://other.example/x'') =
     Returned [SetLocationHref ''https://other.example/x'']"
  by (simp add: handleNavigate_v13_def handleNavigate_v2_3_def top_readable_def
      pushState_accepts_def startsWith_def embedded_same_origin_def embedded_other_origin_def
      sample_origin_def)

section \<open>Properties of the crash boundary\<close>

text \<open>A boundary that has caught a failure keeps its state and its diagnostic view.\<close>

lemma crashed_run:
  assumes "render (state s) = Widget_crashed d k" and "screen s = Diagnostic d k"
  shows "react_run render evs s = s\<lparr>uncaught := uncaught s @ handler_failures evs\<rparr>"
  using assms
proof (induction evs arbitrary: s)
  case Nil
  then show ?case by simp
next
  case (Cons ev evs)
  show ?case
  proof (cases ev)
    case (Handler_fails e)
    have "react_run render evs (s\<lparr>uncaught := uncaught s @ [e]\<rparr>) =
        s\<lparr>uncaught := uncaught s @ [e]\<rparr>
         \<lparr>uncaught := uncaught (s\<lparr>uncaught := uncaught s @ [e]\<rparr>) @ handler_failures evs\<rparr>"
      by (rule Cons.IH) (simp_all add: Cons.prems)
    then show ?thesis
      by (simp add: Handler_fails react_step_def)
  next
    case (Render_pass p)
    have same: "s\<lparr>screen := Diagnostic d k\<rparr> = s"
      using Cons.prems(2) by (cases s) simp
    have "react_step render ev s = s"
      by (simp add: Render_pass react_step_def Cons.prems(1) same)
    then show ?thesis
      using Cons.IH [OF Cons.prems] by (simp add: Render_pass)
  qed
qed

text \<open>
  A run from a boundary that has caught nothing, for a \<open>render\<close> that returns the
  children in the constructor's state and a diagnostic view after a failure.
\<close>

lemma healthy_run:
  assumes healthy: "render ErrorBoundary = Props_children"
    and crashed: "\<And>e k. render (componentDidCatch e k (getDerivedStateFromError e ErrorBoundary)) =
        Widget_crashed (Some (toString e)) (stack k)"
    and s: "state s = ErrorBoundary"
  shows "react_run render evs s =
     (case first_render_failure evs of
        None \<Rightarrow> s\<lparr>screen := last_rendered (screen s) evs,
                 uncaught := uncaught s @ handler_failures evs\<rparr>
      | Some (e, k) \<Rightarrow>
          \<lparr> state = componentDidCatch e k (getDerivedStateFromError e ErrorBoundary),
            screen = Diagnostic (Some (toString e)) (stack k),
            interceptions = interceptions s + 1,
            uncaught = uncaught s @ handler_failures evs \<rparr>)"
  using s
proof (induction evs arbitrary: s)
  case Nil
  then show ?case by simp
next
  case (Cons ev evs)
  show ?case
  proof (cases ev)
    case (Handler_fails e)
    have "state (s\<lparr>uncaught := uncaught s @ [e]\<rparr>) = ErrorBoundary"
      using Cons.prems by simp
    from Cons.IH [OF this] show ?thesis
      by (simp add: Handler_fails react_step_def split: option.splits)
  next
    case (Render_pass p)
    show ?thesis
    proof (cases p)
      case (Renders v)
      have "state (s\<lparr>screen := Subtree v\<rparr>) = ErrorBoundary"
        using Cons.prems by simp
      from Cons.IH [OF this] show ?thesis
        by (simp add: Render_pass Renders react_step_def Cons.prems healthy split: option.splits)
    next
      case (Render_fails e k)
      define c where "c = componentDidCatch e k (getDerivedStateFromError e ErrorBoundary)"
      define s' where "s' = s\<lparr>state := c, screen := Diagnostic (Some (toString e)) (stack k),
          interceptions := interceptions s + 1\<rparr>"
      have step: "react_step render ev s = s'"
        by (simp add: Render_pass Render_fails react_step_def Cons.prems healthy crashed
            c_def s'_def)
      have run: "react_run render evs s' = s'\<lparr>uncaught := uncaught s' @ handler_failures evs\<rparr>"
        by (rule crashed_run) (simp_all add: s'_def c_def crashed)
      have "react_run render (ev # evs) s = react_run render evs s'"
        by (simp only: react_run.simps step)
      also note run
      also have "s'\<lparr>uncaught := uncaught s' @ handler_failures evs\<rparr> =
          \<lparr> state = c, screen = Diagnostic (Some (toString e)) (stack k),
            interceptions = interceptions s + 1,
            uncaught = uncaught s @ handler_failures (ev # evs) \<rparr>"
        by (cases s) (simp add: s'_def Render_pass)
      finally show ?thesis
        by (simp add: Render_pass Render_fails c_def)
    qed
  qed
qed

lemma mounted_fields:
  "state mounted = ErrorBoundary" "screen mounted = Nothing_shown"
  "interceptions mounted = 0" "uncaught mounted = []"
  by (simp_all add: mounted_def)

lemma render_v13_cases:
  "ErrorBoundary_render_v13 ErrorBoundary = Props_children"
  "ErrorBoundary_render_v13 (componentDidCatch e k (getDerivedStateFromError e ErrorBoundary)) =
     Widget_crashed (Some (toString e)) (Some k)"
  by (simp_all add: ErrorBoundary_render_v13_def ErrorBoundary_def componentDidCatch_def
      getDerivedStateFromError_def)

lemma render_v2_3_cases:
  "ErrorBoundary_render_v2_3 ErrorBoundary = Props_children"
  "ErrorBoundary_render_v2_3 (componentDidCatch e k (getDerivedStateFromError e ErrorBoundary)) =
     Widget_crashed (Some (toString e)) None"
  by (simp_all add: ErrorBoundary_render_v2_3_def ErrorBoundary_def componentDidCatch_def
      getDerivedStateFromError_def)

lemma run_v13:
  "react_run ErrorBoundary_render_v13 evs mounted =
     (case first_render_failure evs of
        None \<Rightarrow>
          \<lparr> state = ErrorBoundary, screen = last_rendered Nothing_shown evs,
            interceptions = 0, uncaught = handler_failures evs \<rparr>
      | Some (e, k) \<Rightarrow>
          \<lparr> state = componentDidCatch e k (getDerivedStateFromError e ErrorBoundary),
            screen = Diagnostic (Some (toString e)) (Some k),
            interceptions = 1, uncaught = handler_failures evs \<rparr>)"
  using healthy_run [where render = ErrorBoundary_render_v13 and stack = Some
      and s = mounted and evs = evs, OF render_v13_cases mounted_fields(1)]
  by (simp add: mounted_def split: option.splits)

lemma run_v2_3:
  "react_run ErrorBoundary_render_v2_3 evs mounted =
     (case first_render_failure evs of
        None \<Rightarrow>
          \<lparr> state = ErrorBoundary, screen = last_rendered Nothing_shown evs,
            interceptions = 0, uncaught = handler_failures evs \<rparr>
      | Some (e, k) \<Rightarrow>
          \<lparr> state = componentDidCatch e k (getDerivedStateFromError e ErrorBoundary),
            screen = Diagnostic (Some (toString e)) None,
            interceptions = 1, uncaught = handler_failures evs \<rparr>)"
  using healthy_run [where render = ErrorBoundary_render_v2_3 and stack = "\<lambda>k. None"
      and s = mounted and evs = evs, OF render_v2_3_cases mounted_fields(1)]
  by (simp add: mounted_def split: option.splits)

text \<open>
  C8. Over any sequence of render passes and handler events after mounting, in both
  widget versions: the failures that leave the widget uncaught are exactly the failures
  of the handlers, so no failure of a render pass escapes and no failure of a handler is
  intercepted; as long as no render pass has failed nothing is intercepted and the
  subtree's last view is shown; and once a render pass has failed, that first failure is
  the one interception of the run and the diagnostic view carrying its description is
  what is shown from then on (with the component stack in version 13.0).
\<close>

theorem crash_boundary:
  "uncaught (react_run ErrorBoundary_render_v13 evs mounted) = handler_failures evs \<and>
   uncaught (react_run ErrorBoundary_render_v2_3 evs mounted) = handler_failures evs \<and>
   (first_render_failure evs = None \<longrightarrow>
      interceptions (react_run ErrorBoundary_render_v13 evs mounted) = 0 \<and>
      screen (react_run ErrorBoundary_render_v13 evs mounted) = last_rendered Nothing_shown evs \<and>
      interceptions (react_run ErrorBoundary_render_v2_3 evs mounted) = 0 \<and>
      screen (react_run ErrorBoundary_render_v2_3 evs mounted) = last_rendered Nothing_shown evs) \<and>
   (first_render_failure evs = Some (e, k) \<longrightarrow>
      interceptions (react_run ErrorBoundary_render_v13 evs mounted) = 1 \<and>
      screen (react_run ErrorBoundary_render_v13 evs mounted) =
        Diagnostic (Some (toString e)) (Some k) \<and>
      interceptions (react_run ErrorBoundary_render_v2_3 evs mounted) = 1 \<and>
      screen (react_run ErrorBoundary_render_v2_3 evs mounted) =
        Diagnostic (Some (toString e)) None)"
  unfolding run_v13 run_v2_3 by (cases "first_render_failure evs") auto

theorem crash_boundary_witness:
  "first_render_failure
     [Render_pass (Renders ''tiles''), Handler_fails (Error ''SecurityError'' ''refused''),
      Render_pass (Render_fails (Error ''TypeError'' ''pageRecords.map is not a function'')
        ''at MenuElement''),
      Render_pass (Renders ''tiles'')] =
     Some (Error ''TypeError'' ''pageRecords.map is not a function'', ''at MenuElement'') \<and>
   screen (react_run ErrorBoundary_render_v2_3
     [Render_pass (Renders ''tiles''), Handler_fails (Error ''SecurityError'' ''refused''),
      Render_pass (Render_fails (Error ''TypeError'' ''pageRecords.map is not a function'')
        ''at MenuElement''),
      Render_pass (Renders ''tiles'')] mounted) =
     Diagnostic (Some ''TypeError: pageRecords.map is not a function'') None \<and>
   interceptions (react_run ErrorBoundary_render_v13
     [Render_pass (Renders ''tiles''), Handler_fails (Error ''SecurityError'' ''refused''),
      Render_pass (Render_fails (Error ''TypeError'' ''pageRecords.map is not a function'')
        ''at MenuElement''),
      Render_pass (Renders ''tiles'')] mounted) = 1 \<and>
   uncaught (react_run ErrorBoundary_render_v13
     [Render_pass (Renders ''tiles''), Handler_fails (Error ''SecurityError'' ''refused''),
      Render_pass (Render_fails (Error ''TypeError'' ''pageRecords.map is not a function'')
        ''at MenuElement''),
      Render_pass (Renders ''tiles'')] mounted) = [Error ''SecurityError'' ''refused'']"
  using crash_boundary
    [of "[Render_pass (Renders ''tiles''), Handler_fails (Error ''SecurityError'' ''refused''),
      Render_pass (Render_fails (Error ''TypeError'' ''pageRecords.map is not a function'')
        ''at MenuElement''),
      Render_pass (Renders ''tiles'')]"
     "Error ''TypeError'' ''pageRecords.map is not a function''" "''at MenuElement''"]
  by simp


end
